theory Spec2Isabelle
  imports Main "HOL-Library.Sublist"
begin

section \<open>The browser service of \<^verbatim>\<open>src/services/browser/browser.service.ts\<close>\<close>

text \<open>
  \<^verbatim>\<open>BrowserService\<close> holds at most one browser handle and forwards every operation to
  the puppeteer driver, turning whatever the driver throws into a \<^verbatim>\<open>BrowserError\<close>.
  The driver is external: it is a parameter of every operation, and its answer to a
  call may depend on all the calls made before (the trace). Each operation is one
  step: the state before, the state after and what the caller receives. Calls of one
  service do not overlap.
\<close>

subsection \<open>Errors\<close>

text \<open>
  Modelled from the spec: the class \<^verbatim>\<open>BrowserError\<close> of \<^verbatim>\<open>core/utils/errors.js\<close> is not
  among the sources. It is the single error kind, parameterized by a human-readable
  message, and it is an \<^verbatim>\<open>Error\<close> whose \<^verbatim>\<open>message\<close> is that text.
\<close>

datatype browser_error = BrowserError string

text \<open>
  What a \<^verbatim>\<open>catch (error)\<close> clause can receive: an \<^verbatim>\<open>Error\<close> object with its message, a
  \<^verbatim>\<open>BrowserError\<close> raised by the service itself, or any other value, kept by its
  string form.
\<close>

datatype thrown = ErrorObject string | OwnError browser_error | OtherValue string

text \<open>\<^verbatim>\<open>error instanceof Error ? error.message : String(error)\<close>\<close>

fun error_text :: "thrown \<Rightarrow> string" where
  "error_text (ErrorObject m) = m"
| "error_text (OwnError (BrowserError m)) = m"
| "error_text (OtherValue s) = s"

subsection \<open>JavaScript values\<close>

text \<open>
  A JavaScript number, as far as the service looks at it: an integer (window sizes are
  pixels, timeouts are milliseconds) or \<^verbatim>\<open>NaN\<close>. Zero and \<^verbatim>\<open>NaN\<close> are the falsy numbers; a
  fraction or an infinity is truthy like any other non-zero number and is not
  represented.
\<close>

datatype number = Number int | NaN

text \<open>
  The text of a number in a template literal. Integers below \<open>10^21\<close> in absolute value
  print as their decimal digits, which covers every window size; from \<open>10^21\<close> on
  JavaScript prints an exponent form, which is not modelled.
\<close>

function string_of_nat :: "nat \<Rightarrow> string" where
  "string_of_nat n =
     (if n < 10 then [''0123456789'' ! n]
      else string_of_nat (n div 10) @ [''0123456789'' ! (n mod 10)])"
  by pat_completeness auto
termination
  by (relation "measure id") auto

declare string_of_nat.simps [simp del]

fun string_of_number :: "number \<Rightarrow> string" where
  "string_of_number NaN = ''NaN''"
| "string_of_number (Number i) =
     (if i < 0 then CHR ''-'' # string_of_nat (nat (- i)) else string_of_nat (nat i))"

declare string_of_number.simps [simp del]

text \<open>
  \<^verbatim>\<open>a || b\<close> yields \<^verbatim>\<open>b\<close> when \<^verbatim>\<open>a\<close> is falsy: \<^verbatim>\<open>undefined\<close> (here \<open>None\<close>), the numbers
  zero and \<^verbatim>\<open>NaN\<close>, the empty string.
\<close>

fun or_number :: "number option \<Rightarrow> number \<Rightarrow> number" where
  "or_number None d = d"
| "or_number (Some NaN) d = d"
| "or_number (Some (Number n)) d = (if n = 0 then d else Number n)"

fun or_string :: "string option \<Rightarrow> string \<Rightarrow> string" where
  "or_string None d = d"
| "or_string (Some s) d = (if s = [] then d else s)"

subsection \<open>Configuration\<close>

text \<open>
  Modelled from the spec: \<^verbatim>\<open>ConfigManager\<close> (\<^verbatim>\<open>core/utils/config.js\<close>) and the interfaces
  \<^verbatim>\<open>IBrowserConfig\<close> and \<^verbatim>\<open>INavigationOptions\<close> (\<^verbatim>\<open>types.js\<close>) are not among the sources. The
  configuration provider supplies the headless flag, the profile directory, the window
  width and height and the default timeout; the fields below are the ones the
  constructor reads. \<open>browser_headless\<close> stands for \<^verbatim>\<open>serverConfig.browser.headless\<close>, and
  so on.
\<close>

record server_config =
  chromeUserDataDir :: string
  browser_headless :: bool
  browser_windowWidth :: number
  browser_windowHeight :: number
  browser_defaultTimeout :: number

record browser_config =
  headless :: bool
  userDataDir :: string
  windowWidth :: number
  windowHeight :: number
  defaultTimeout :: number

record navigation_options =
  nav_waitUntil :: "string option"
  nav_timeout :: "number option"

subsection \<open>The driver\<close>

type_synonym browser_handle = nat
type_synonym page_handle = nat

record viewport =
  width :: number
  height :: number

record launch_options =
  launch_headless :: bool
  channel :: string
  launch_userDataDir :: string
  args :: "string list"
  defaultViewport :: viewport

record goto_options =
  waitUntil :: string
  timeout :: number

text \<open>The calls the service makes to the driver, with their arguments.\<close>

datatype call =
    Launch launch_options
  | NewPage browser_handle
  | CloseBrowser browser_handle
  | SetViewport page_handle viewport
  | SetUserAgent page_handle string
  | SetDefaultTimeout page_handle number
  | SetExtraHTTPHeaders page_handle "(string \<times> string) list"
  | Goto page_handle string goto_options
  | WaitForSelector page_handle string number

text \<open>
  The driver answers a call, given the trace of the calls before it, by a value or by
  throwing. While a call is awaited the driver may also emit \<^verbatim>\<open>disconnected\<close>.
  \<open>browser_close_emits\<close> lists the browsers on which it does so while
  \<^verbatim>\<open>await this.browser.close()\<close> is pending: the observer may then have cleared the handle
  by the time \<open>close\<close> raises. For the other operations such an event is a step of its
  own in a call sequence: while \<open>initialize\<close> awaits the launch the handle is absent, and
  clearing it changes nothing; \<open>getPage\<close>, \<open>navigateTo\<close> and \<open>waitForSelector\<close> do not
  touch the handle after their first driver call, so that an event during them leaves
  the state that the same event leaves right after them.
\<close>

record driver =
  puppeteer_launch :: "call list \<Rightarrow> launch_options \<Rightarrow> thrown + browser_handle"
  browser_newPage :: "call list \<Rightarrow> browser_handle \<Rightarrow> thrown + page_handle"
  browser_close :: "call list \<Rightarrow> browser_handle \<Rightarrow> thrown + unit"
  browser_close_emits :: "call list \<Rightarrow> browser_handle \<Rightarrow> browser_handle list"
  page_setViewport :: "call list \<Rightarrow> page_handle \<Rightarrow> viewport \<Rightarrow> thrown + unit"
  page_setUserAgent :: "call list \<Rightarrow> page_handle \<Rightarrow> string \<Rightarrow> thrown + unit"
  page_setDefaultTimeout :: "call list \<Rightarrow> page_handle \<Rightarrow> number \<Rightarrow> thrown + unit"
  page_setExtraHTTPHeaders ::
    "call list \<Rightarrow> page_handle \<Rightarrow> (string \<times> string) list \<Rightarrow> thrown + unit"
  page_goto :: "call list \<Rightarrow> page_handle \<Rightarrow> string \<Rightarrow> goto_options \<Rightarrow> thrown + unit"
  page_waitForSelector :: "call list \<Rightarrow> page_handle \<Rightarrow> string \<Rightarrow> number \<Rightarrow> thrown + unit"

subsection \<open>The service\<close>

text \<open>
  \<open>browser\<close> and \<open>config\<close> are the two private fields of the class. \<open>trace\<close> is the list
  of driver calls made so far, oldest first. \<open>listeners\<close> holds the browsers on which the
  service has registered its \<^verbatim>\<open>disconnected\<close> observer: \<^verbatim>\<open>this.browser.on\<close> only stores the
  callback in the event emitter of the browser object, so it is not a call that the
  driver answers and it does not throw.
\<close>

record BrowserService =
  browser :: "browser_handle option"
  config :: browser_config
  trace :: "call list"
  listeners :: "browser_handle list"

text \<open>The constructor, given what \<^verbatim>\<open>ConfigManager.getInstance().getConfig()\<close> returns.\<close>

definition new_BrowserService :: "server_config \<Rightarrow> BrowserService" where
  "new_BrowserService serverConfig =
     \<lparr>browser = None,
      config = \<lparr>headless = browser_headless serverConfig,
                userDataDir = chromeUserDataDir serverConfig,
                windowWidth = browser_windowWidth serverConfig,
                windowHeight = browser_windowHeight serverConfig,
                defaultTimeout = browser_defaultTimeout serverConfig\<rparr>,
      trace = [],
      listeners = []\<rparr>"

text \<open>\<^verbatim>\<open>new BrowserError(`${msg}${error instanceof Error ? error.message : String(error)}`)\<close>\<close>

definition wrap :: "string \<Rightarrow> thrown \<Rightarrow> browser_error" where
  "wrap msg e = BrowserError (msg @ error_text e)"

definition record_call :: "call \<Rightarrow> BrowserService \<Rightarrow> BrowserService" where
  "record_call c s = s\<lparr>trace := trace s @ [c]\<rparr>"

definition initialize :: "driver \<Rightarrow> BrowserService \<Rightarrow> (browser_error + unit) \<times> BrowserService" where
  "initialize d s =
     (case browser s of
        Some b \<Rightarrow> (Inr (), s)
      | None \<Rightarrow>
          (let opts = \<lparr>launch_headless = True,
                       channel = ''chrome'',
                       launch_userDataDir = userDataDir (config s),
                       args = [''--no-sandbox'',
                               ''--disable-setuid-sandbox'',
                               ''--window-size='' @ string_of_number (windowWidth (config s))
                                 @ '','' @ string_of_number (windowHeight (config s)),
                               ''--disable-dev-shm-usage'',
                               ''--disable-blink-features=AutomationControlled''],
                       defaultViewport = \<lparr>width = windowWidth (config s),
                                          height = windowHeight (config s)\<rparr>\<rparr>;
               s1 = record_call (Launch opts) s
           in case puppeteer_launch d (trace s) opts of
                Inl e \<Rightarrow> (Inl (wrap ''Failed to initialize browser: '' e), s1)
              | Inr b \<Rightarrow> (Inr (), s1\<lparr>browser := Some b, listeners := b # listeners s1\<rparr>)))"

text \<open>
  The observer registered by \<open>initialize\<close>: it clears the handle, then throws; the error
  it throws has no caller to receive it and is returned here beside the state.
\<close>

definition on_disconnected :: "BrowserService \<Rightarrow> browser_error \<times> BrowserService" where
  "on_disconnected s =
     (BrowserError ''Browser disconnected unexpectedly'', s\<lparr>browser := None\<rparr>)"

text \<open>
  The driver emits \<^verbatim>\<open>disconnected\<close> on browser \<open>b\<close>: the observer runs if it is registered
  on \<open>b\<close>, and nothing happens otherwise.
\<close>

definition emit_disconnected ::
  "browser_handle \<Rightarrow> BrowserService \<Rightarrow> browser_error option \<times> BrowserService" where
  "emit_disconnected b s =
     (if b \<in> set (listeners s)
      then (case on_disconnected s of (e, s') \<Rightarrow> (Some e, s'))
      else (None, s))"

text \<open>The events emitted while one call is pending, in order.\<close>

fun emit_all :: "browser_handle list \<Rightarrow> BrowserService \<Rightarrow> BrowserService" where
  "emit_all [] s = s"
| "emit_all (b # bs) s = emit_all bs (snd (emit_disconnected b s))"

definition setupPage ::
  "driver \<Rightarrow> BrowserService \<Rightarrow> page_handle \<Rightarrow> (browser_error + unit) \<times> BrowserService" where
  "setupPage d s page =
     (let vp = \<lparr>width = windowWidth (config s), height = windowHeight (config s)\<rparr>;
          s1 = record_call (SetViewport page vp) s
      in case page_setViewport d (trace s) page vp of
           Inl e \<Rightarrow> (Inl (wrap ''Failed to setup page: '' e), s1)
         | Inr _ \<Rightarrow>
             (let ua = ''Mozilla/5.0 (Macintosh; Intel Mac OS X 10_15_7) AppleWebKit/537.36 (KHTML, like Gecko) Chrome/120.0.0.0 Safari/537.36'';
                  s2 = record_call (SetUserAgent page ua) s1
              in case page_setUserAgent d (trace s1) page ua of
                   Inl e \<Rightarrow> (Inl (wrap ''Failed to setup page: '' e), s2)
                 | Inr _ \<Rightarrow>
                     (let s3 = record_call (SetDefaultTimeout page (defaultTimeout (config s))) s2
                      in case page_setDefaultTimeout d (trace s2) page (defaultTimeout (config s)) of
                           Inl e \<Rightarrow> (Inl (wrap ''Failed to setup page: '' e), s3)
                         | Inr _ \<Rightarrow>
                             (let hs = [(''Accept-Language'', ''en-US,en;q=0.9'')];
                                  s4 = record_call (SetExtraHTTPHeaders page hs) s3
                              in case page_setExtraHTTPHeaders d (trace s3) page hs of
                                   Inl e \<Rightarrow> (Inl (wrap ''Failed to setup page: '' e), s4)
                                 | Inr _ \<Rightarrow> (Inr (), s4)))))"

definition getPage ::
  "driver \<Rightarrow> BrowserService \<Rightarrow> (browser_error + page_handle) \<times> BrowserService" where
  "getPage d s =
     (case browser s of
        None \<Rightarrow> (Inl (BrowserError ''Browser not initialized''), s)
      | Some b \<Rightarrow>
          (let s1 = record_call (NewPage b) s
           in case browser_newPage d (trace s) b of
                Inl e \<Rightarrow> (Inl (wrap ''Failed to create new page: '' e), s1)
              | Inr page \<Rightarrow>
                  (case setupPage d s1 page of
                     (Inl e, s2) \<Rightarrow> (Inl (wrap ''Failed to create new page: '' (OwnError e)), s2)
                   | (Inr _, s2) \<Rightarrow> (Inr page, s2))))"

definition close :: "driver \<Rightarrow> BrowserService \<Rightarrow> (browser_error + unit) \<times> BrowserService" where
  "close d s =
     (case browser s of
        None \<Rightarrow> (Inr (), s)
      | Some b \<Rightarrow>
          (let s1 = record_call (CloseBrowser b) s;
               s2 = emit_all (browser_close_emits d (trace s) b) s1
           in case browser_close d (trace s) b of
                Inl e \<Rightarrow> (Inl (wrap ''Failed to close browser: '' e), s2)
              | Inr _ \<Rightarrow> (Inr (), s2\<lparr>browser := None\<rparr>)))"

definition navigateTo ::
  "driver \<Rightarrow> BrowserService \<Rightarrow> page_handle \<Rightarrow> string \<Rightarrow> navigation_options option
     \<Rightarrow> (browser_error + unit) \<times> BrowserService" where
  "navigateTo d s page url options =
     (let opts = \<lparr>waitUntil = or_string (Option.bind options nav_waitUntil) ''networkidle0'',
                  timeout = or_number (Option.bind options nav_timeout) (defaultTimeout (config s))\<rparr>;
          s1 = record_call (Goto page url opts) s
      in case page_goto d (trace s) page url opts of
           Inl e \<Rightarrow> (Inl (wrap (''Failed to navigate to '' @ url @ '': '') e), s1)
         | Inr _ \<Rightarrow> (Inr (), s1))"

definition waitForSelector ::
  "driver \<Rightarrow> BrowserService \<Rightarrow> page_handle \<Rightarrow> string \<Rightarrow> number option
     \<Rightarrow> (browser_error + bool) \<times> BrowserService" where
  "waitForSelector d s page selector tmo =
     (let t = or_number tmo (defaultTimeout (config s));
          s1 = record_call (WaitForSelector page selector t) s
      in case page_waitForSelector d (trace s) page selector t of
           Inl e \<Rightarrow> (Inr False, s1)
         | Inr _ \<Rightarrow> (Inr True, s1))"

subsection \<open>Call sequences\<close>

text \<open>
  What can happen to a service, one after the other: a caller invokes one of the five
  public operations, or the driver emits \<^verbatim>\<open>disconnected\<close> on a browser.
\<close>

datatype operation =
    Initialize
  | GetPage
  | Close
  | NavigateTo page_handle string "navigation_options option"
  | WaitFor page_handle string "number option"
  | Disconnected browser_handle

datatype outcome =
    Returned
  | ReturnedPage page_handle
  | ReturnedBool bool
  | Raised browser_error
  | ObserverThrew browser_error
  | NoObserver

fun step :: "driver \<Rightarrow> operation \<Rightarrow> BrowserService \<Rightarrow> outcome \<times> BrowserService" where
  "step d Initialize s =
     (case initialize d s of (Inl e, s') \<Rightarrow> (Raised e, s') | (Inr _, s') \<Rightarrow> (Returned, s'))"
| "step d GetPage s =
     (case getPage d s of (Inl e, s') \<Rightarrow> (Raised e, s') | (Inr p, s') \<Rightarrow> (ReturnedPage p, s'))"
| "step d Close s =
     (case close d s of (Inl e, s') \<Rightarrow> (Raised e, s') | (Inr _, s') \<Rightarrow> (Returned, s'))"
| "step d (NavigateTo page url options) s =
     (case navigateTo d s page url options of
        (Inl e, s') \<Rightarrow> (Raised e, s') | (Inr _, s') \<Rightarrow> (Returned, s'))"
| "step d (WaitFor page selector tmo) s =
     (case waitForSelector d s page selector tmo of
        (Inl e, s') \<Rightarrow> (Raised e, s') | (Inr r, s') \<Rightarrow> (ReturnedBool r, s'))"
| "step d (Disconnected b) s =
     (case emit_disconnected b s of
        (Some e, s') \<Rightarrow> (ObserverThrew e, s') | (None, s') \<Rightarrow> (NoObserver, s'))"

text \<open>Running a sequence: every operation with its outcome, and the final state.\<close>

fun run ::
  "driver \<Rightarrow> operation list \<Rightarrow> BrowserService \<Rightarrow> (operation \<times> outcome) list \<times> BrowserService" where
  "run d [] s = ([], s)"
| "run d (x # xs) s =
     (case step d x s of
        (r, s') \<Rightarrow> (case run d xs s' of (rs, s'') \<Rightarrow> ((x, r) # rs, s'')))"

fun initialize_succeeded :: "operation \<times> outcome \<Rightarrow> bool" where
  "initialize_succeeded (Initialize, Returned) = True"
| "initialize_succeeded _ = False"

fun close_or_disconnect :: "operation \<Rightarrow> bool" where
  "close_or_disconnect Close = True"
| "close_or_disconnect (Disconnected b) = True"
| "close_or_disconnect _ = False"

fun is_launch :: "call \<Rightarrow> bool" where
  "is_launch (Launch _) = True"
| "is_launch _ = False"

definition launches :: "BrowserService \<Rightarrow> nat" where
  "launches s = length (filter is_launch (trace s))"

text \<open>
  The handle, when present, is a browser on which the observer is registered.
\<close>

definition observed :: "BrowserService \<Rightarrow> bool" where
  "observed s = (case browser s of None \<Rightarrow> True | Some b \<Rightarrow> b \<in> set (listeners s))"

subsection \<open>Concrete configurations and drivers\<close>

text \<open>
  A configuration with the headless flag off, and the drivers used to evaluate the
  operations: one whose every call succeeds (handles are numbered by the length of the
  trace), one whose every call throws, one whose first launch throws and whose browsers
  refuse to close, one whose pages refuse the extra headers, and one whose browsers
  disconnect while their close fails.
\<close>

definition example_config :: server_config where
  "example_config =
     \<lparr>chromeUserDataDir = ''/tmp/profile'',
      browser_headless = False,
      browser_windowWidth = Number 1280,
      browser_windowHeight = Number 800,
      browser_defaultTimeout = Number 30000\<rparr>"

definition obliging_driver :: driver where
  "obliging_driver =
     \<lparr>puppeteer_launch = (\<lambda>tr opts. Inr (length tr)),
      browser_newPage = (\<lambda>tr b. Inr (length tr)),
      browser_close = (\<lambda>tr b. Inr ()),
      browser_close_emits = (\<lambda>tr b. []),
      page_setViewport = (\<lambda>tr p v. Inr ()),
      page_setUserAgent = (\<lambda>tr p u. Inr ()),
      page_setDefaultTimeout = (\<lambda>tr p t. Inr ()),
      page_setExtraHTTPHeaders = (\<lambda>tr p h. Inr ()),
      page_goto = (\<lambda>tr p u opts. Inr ()),
      page_waitForSelector = (\<lambda>tr p sel t. Inr ())\<rparr>"

definition refusing_driver :: driver where
  "refusing_driver =
     \<lparr>puppeteer_launch = (\<lambda>tr opts. Inl (ErrorObject ''Could not find Chrome'')),
      browser_newPage = (\<lambda>tr b. Inl (ErrorObject ''Target closed'')),
      browser_close = (\<lambda>tr b. Inl (ErrorObject ''Protocol error'')),
      browser_close_emits = (\<lambda>tr b. []),
      page_setViewport = (\<lambda>tr p v. Inl (ErrorObject ''Target closed'')),
      page_setUserAgent = (\<lambda>tr p u. Inl (ErrorObject ''Target closed'')),
      page_setDefaultTimeout = (\<lambda>tr p t. Inl (ErrorObject ''Target closed'')),
      page_setExtraHTTPHeaders = (\<lambda>tr p h. Inl (ErrorObject ''Target closed'')),
      page_goto = (\<lambda>tr p u opts. Inl (ErrorObject ''net::ERR_NAME_NOT_RESOLVED'')),
      page_waitForSelector = (\<lambda>tr p sel t. Inl (OtherValue ''TimeoutError''))\<rparr>"

definition flaky_driver :: driver where
  "flaky_driver =
     obliging_driver
       \<lparr>puppeteer_launch :=
          (\<lambda>tr opts. if tr = [] then Inl (ErrorObject ''Could not find Chrome'')
                      else Inr (length tr)),
        browser_close := (\<lambda>tr b. Inl (ErrorObject ''Protocol error''))\<rparr>"

definition headers_refusing_driver :: driver where
  "headers_refusing_driver =
     obliging_driver
       \<lparr>page_setExtraHTTPHeaders := (\<lambda>tr p h. Inl (OtherValue ''headers rejected''))\<rparr>"

definition vanishing_driver :: driver where
  "vanishing_driver =
     obliging_driver
       \<lparr>browser_close := (\<lambda>tr b. Inl (ErrorObject ''Protocol error'')),
        browser_close_emits := (\<lambda>tr b. [b])\<rparr>"

section \<open>Properties\<close>

subsection \<open>The handle under each operation\<close>

lemma string_of_number_1280: "string_of_number (Number 1280) = ''1280''"
  by (simp add: string_of_number.simps string_of_nat.simps)

lemma string_of_number_800: "string_of_number (Number 800) = ''800''"
  by (simp add: string_of_number.simps string_of_nat.simps)

lemma new_BrowserService_absent: "browser (new_BrowserService c) = None"
  by (simp add: new_BrowserService_def)

lemma initialize_absent:
  "browser s = None \<Longrightarrow>
   trace (snd (initialize d s)) =
     trace s @
     [Launch \<lparr>launch_headless = True,
              channel = ''chrome'',
              launch_userDataDir = userDataDir (config s),
              args = [''--no-sandbox'',
                      ''--disable-setuid-sandbox'',
                      ''--window-size='' @ string_of_number (windowWidth (config s))
                        @ '','' @ string_of_number (windowHeight (config s)),
                      ''--disable-dev-shm-usage'',
                      ''--disable-blink-features=AutomationControlled''],
              defaultViewport = \<lparr>width = windowWidth (config s),
                                 height = windowHeight (config s)\<rparr>\<rparr>]"
  by (simp add: initialize_def record_call_def Let_def split: sum.splits)

lemma initialize_present: "browser s = Some b \<Longrightarrow> initialize d s = (Inr (), s)"
  by (simp add: initialize_def)

lemma initialize_raises_absent:
  "browser s = None \<Longrightarrow> fst (initialize d s) = Inl e \<Longrightarrow> browser (snd (initialize d s)) = None"
  by (auto simp: initialize_def record_call_def Let_def split: sum.splits)

lemma initialize_returns_present:
  "fst (initialize d s) = Inr u \<Longrightarrow> \<exists>b. browser (snd (initialize d s)) = Some b"
  by (auto simp: initialize_def record_call_def Let_def split: option.splits sum.splits)

lemma initialize_launches: "launches (snd (initialize d s)) \<le> launches s + 1"
  by (simp add: initialize_def record_call_def launches_def Let_def split: option.splits sum.splits)

lemma getPage_absent:
  "browser s = None \<Longrightarrow> getPage d s = (Inl (BrowserError ''Browser not initialized''), s)"
  by (simp add: getPage_def)

lemma close_absent: "browser s = None \<Longrightarrow> close d s = (Inr (), s)"
  by (simp add: close_def)

lemma navigateTo_browser: "browser (snd (navigateTo d s p u opts)) = browser s"
  by (simp add: navigateTo_def record_call_def Let_def split: sum.splits)

lemma waitForSelector_browser: "browser (snd (waitForSelector d s p sel t)) = browser s"
  by (simp add: waitForSelector_def record_call_def Let_def split: sum.splits)

lemma emit_disconnected_absent:
  "browser s = None \<Longrightarrow> browser (snd (emit_disconnected b s)) = None"
  by (simp add: emit_disconnected_def on_disconnected_def)

lemma emit_all_absent: "browser s = None \<Longrightarrow> browser (emit_all bs s) = None"
  by (induction bs arbitrary: s) (simp_all add: emit_disconnected_absent)

lemma emit_all_unobserved: "set bs \<inter> set (listeners s) = {} \<Longrightarrow> emit_all bs s = s"
  by (induction bs arbitrary: s) (simp_all add: emit_disconnected_def)

lemma close_absent_after:
  "browser s = None \<Longrightarrow> browser (snd (close d s)) = None"
  by (simp add: close_def)

text \<open>
  An absent handle stays absent under every step but an \<open>initialize\<close> that returns.
\<close>

lemma step_keeps_absent:
  assumes "browser s = None" and "\<not> initialize_succeeded (x, fst (step d x s))"
  shows "browser (snd (step d x s)) = None"
proof (cases x)
  case Initialize
  show ?thesis
  proof (cases "fst (initialize d s)")
    case (Inl e)
    with assms(1) Initialize show ?thesis
      using initialize_raises_absent [of s d e]
      by (cases "initialize d s") simp
  next
    case (Inr u)
    with assms(2) Initialize show ?thesis
      by (cases "initialize d s") simp
  qed
next
  case GetPage
  with assms(1) show ?thesis by (simp add: getPage_absent)
next
  case Close
  with assms(1) show ?thesis by (simp add: close_absent)
next
  case (NavigateTo p u opts)
  with assms(1) navigateTo_browser [of d s p u opts] show ?thesis
    by (cases "navigateTo d s p u opts") (auto split: sum.splits)
next
  case (WaitFor p sel t)
  with assms(1) waitForSelector_browser [of d s p sel t] show ?thesis
    by (cases "waitForSelector d s p sel t") (auto split: sum.splits)
next
  case (Disconnected b)
  with assms(1) emit_disconnected_absent [of s b] show ?thesis
    by (cases "emit_disconnected b s") (auto split: option.splits)
qed

lemma run_keeps_absent:
  "browser s = None \<Longrightarrow> \<not> list_ex initialize_succeeded (fst (run d ops s)) \<Longrightarrow>
   browser (snd (run d ops s)) = None"
proof (induction ops arbitrary: s)
  case Nil
  then show ?case by simp
next
  case (Cons x xs)
  obtain r s' where st: "step d x s = (r, s')" by (cases "step d x s")
  obtain rs s'' where rn: "run d xs s' = (rs, s'')" by (cases "run d xs s'")
  from Cons.prems(2) st rn have nx: "\<not> initialize_succeeded (x, r)"
    and nxs: "\<not> list_ex initialize_succeeded (fst (run d xs s'))"
    by simp_all
  from step_keeps_absent [of s x d] Cons.prems(1) nx st have "browser s' = None" by simp
  from Cons.IH [OF this nxs] st rn show ?case by simp
qed

lemma launched_example:
  "snd (initialize obliging_driver (new_BrowserService example_config)) =
     (new_BrowserService example_config)
       \<lparr>browser := Some 0,
        trace := [Launch \<lparr>launch_headless = True,
              channel = ''chrome'',
              launch_userDataDir = ''/tmp/profile'',
              args = [''--no-sandbox'',
                      ''--disable-setuid-sandbox'',
                      ''--window-size=1280,800'',
                      ''--disable-dev-shm-usage'',
                      ''--disable-blink-features=AutomationControlled''],
              defaultViewport = \<lparr>width = Number 1280, height = Number 800\<rparr>\<rparr>],
        listeners := [0]\<rparr>"
  by (simp add: initialize_def record_call_def new_BrowserService_def obliging_driver_def
      example_config_def string_of_number_1280 string_of_number_800)

text \<open>
  Every state reached from a new service keeps the observer registered on the browser it
  holds.
\<close>

lemma emit_disconnected_observed: "observed s \<Longrightarrow> observed (snd (emit_disconnected b s))"
  by (simp add: observed_def emit_disconnected_def on_disconnected_def split: option.splits)

lemma emit_all_observed: "observed s \<Longrightarrow> observed (emit_all bs s)"
  by (induction bs arbitrary: s) (simp_all add: emit_disconnected_observed)

lemma step_observed: "observed s \<Longrightarrow> observed (snd (step d x s))"
proof (cases x)
  case Initialize
  assume "observed s"
  then show ?thesis using Initialize
    by (auto simp: observed_def initialize_def record_call_def Let_def
        split: option.splits sum.splits prod.splits)
next
  case GetPage
  assume "observed s"
  have "browser (snd (getPage d s)) = browser s" "listeners (snd (getPage d s)) = listeners s"
    by (auto simp: getPage_def setupPage_def record_call_def Let_def
        split: option.splits sum.splits prod.splits)
  with \<open>observed s\<close> have "observed (snd (getPage d s))"
    unfolding observed_def by (simp split: option.splits)
  with GetPage show ?thesis
    by (cases "getPage d s") (auto split: sum.splits)
next
  case Close
  assume "observed s"
  from \<open>observed s\<close> have "observed (record_call c s)" for c
    by (simp add: record_call_def observed_def split: option.splits)
  then have e: "observed (emit_all bs (record_call c s))" for bs c
    by (rule emit_all_observed)
  have n: "observed (t\<lparr>browser := None\<rparr>)" for t
    by (simp add: observed_def)
  from \<open>observed s\<close> e n have "observed (snd (close d s))"
    by (simp add: close_def Let_def split: option.splits sum.splits)
  with Close show ?thesis
    by (cases "close d s") (auto split: sum.splits)
next
  case (NavigateTo p u opts)
  assume "observed s"
  then show ?thesis using NavigateTo
    by (auto simp: observed_def navigateTo_def record_call_def Let_def
        split: option.splits sum.splits prod.splits)
next
  case (WaitFor p sel t)
  assume "observed s"
  then show ?thesis using WaitFor
    by (auto simp: observed_def waitForSelector_def record_call_def Let_def
        split: option.splits sum.splits prod.splits)
next
  case (Disconnected b)
  assume "observed s"
  then show ?thesis using Disconnected
    by (auto simp: observed_def emit_disconnected_def on_disconnected_def
        split: option.splits sum.splits prod.splits)
qed

lemma run_observed: "observed s \<Longrightarrow> observed (snd (run d ops s))"
proof (induction ops arbitrary: s)
  case Nil
  then show ?case by simp
next
  case (Cons x xs)
  from Cons.IH [OF step_observed [OF Cons.prems, of d x]] show ?case
    by (cases "step d x s"; cases "run d xs (snd (step d x s))") simp
qed

lemma handle_has_observer:
  "browser (snd (run d ops (new_BrowserService c))) = Some b \<Longrightarrow>
   b \<in> set (listeners (snd (run d ops (new_BrowserService c))))"
  using run_observed [of "new_BrowserService c" d ops]
  by (simp add: observed_def new_BrowserService_def)

text \<open>What \<open>setupPage\<close> asks of the driver, and when it returns.\<close>

lemma setupPage_result:
  assumes "vp = \<lparr>width = windowWidth (config s), height = windowHeight (config s)\<rparr>"
    and "ua = ''Mozilla/5.0 (Macintosh; Intel Mac OS X 10_15_7) AppleWebKit/537.36 (KHTML, like Gecko) Chrome/120.0.0.0 Safari/537.36''"
    and "hs = [(''Accept-Language'', ''en-US,en;q=0.9'')]"
  shows "(fst (setupPage d s page) = Inr () \<longleftrightarrow>
            page_setViewport d (trace s) page vp = Inr () \<and>
            page_setUserAgent d (trace s @ [SetViewport page vp]) page ua = Inr () \<and>
            page_setDefaultTimeout d (trace s @ [SetViewport page vp, SetUserAgent page ua])
              page (defaultTimeout (config s)) = Inr () \<and>
            page_setExtraHTTPHeaders d
              (trace s @ [SetViewport page vp, SetUserAgent page ua,
                          SetDefaultTimeout page (defaultTimeout (config s))])
              page hs = Inr ())"
    and "fst (setupPage d s page) = Inr () \<Longrightarrow>
          snd (setupPage d s page) =
            s\<lparr>trace := trace s @ [SetViewport page vp, SetUserAgent page ua,
                                   SetDefaultTimeout page (defaultTimeout (config s)),
                                   SetExtraHTTPHeaders page hs]\<rparr>"
  unfolding assms
  by (auto simp: setupPage_def record_call_def Let_def split: sum.splits)

lemma getPage_unfold:
  "browser s = Some b \<Longrightarrow>
   getPage d s =
     (case browser_newPage d (trace s) b of
        Inl e \<Rightarrow> (Inl (wrap ''Failed to create new page: '' e), record_call (NewPage b) s)
      | Inr page \<Rightarrow>
          (case setupPage d (record_call (NewPage b) s) page of
             (Inl e, s2) \<Rightarrow> (Inl (wrap ''Failed to create new page: '' (OwnError e)), s2)
           | (Inr _, s2) \<Rightarrow> (Inr page, s2)))"
  by (simp add: getPage_def Let_def)

lemma getPage_present_not_uninitialized:
  "browser s = Some b \<Longrightarrow> fst (getPage d s) \<noteq> Inl (BrowserError ''Browser not initialized'')"
  by (auto simp: getPage_def wrap_def Let_def split: sum.splits prod.splits)

text \<open>
  The first step of \<open>setupPage\<close> that throws decides its error, which carries the text
  of what was thrown.
\<close>

lemma setupPage_failure:
  assumes "vp = \<lparr>width = windowWidth (config s), height = windowHeight (config s)\<rparr>"
    and "ua = ''Mozilla/5.0 (Macintosh; Intel Mac OS X 10_15_7) AppleWebKit/537.36 (KHTML, like Gecko) Chrome/120.0.0.0 Safari/537.36''"
    and "hs = [(''Accept-Language'', ''en-US,en;q=0.9'')]"
    and "page_setViewport d (trace s) page vp = Inl e \<or>
         page_setViewport d (trace s) page vp = Inr () \<and>
         (page_setUserAgent d (trace s @ [SetViewport page vp]) page ua = Inl e \<or>
          page_setUserAgent d (trace s @ [SetViewport page vp]) page ua = Inr () \<and>
          (page_setDefaultTimeout d (trace s @ [SetViewport page vp, SetUserAgent page ua])
             page (defaultTimeout (config s)) = Inl e \<or>
           page_setDefaultTimeout d (trace s @ [SetViewport page vp, SetUserAgent page ua])
             page (defaultTimeout (config s)) = Inr () \<and>
           page_setExtraHTTPHeaders d
             (trace s @ [SetViewport page vp, SetUserAgent page ua,
                         SetDefaultTimeout page (defaultTimeout (config s))])
             page hs = Inl e))"
  shows "fst (setupPage d s page) = Inl (BrowserError (''Failed to setup page: '' @ error_text e))"
  using assms(4) unfolding assms(1,2,3)
  by (auto simp: setupPage_def record_call_def wrap_def Let_def)

text \<open>
  A handle stays, and no launch is made, under every step that is neither a close nor a
  disconnect event.
\<close>

lemma getPage_keeps:
  "browser (snd (getPage d s)) = browser s \<and> launches (snd (getPage d s)) = launches s"
  by (auto simp: getPage_def setupPage_def record_call_def launches_def Let_def
      split: option.splits sum.splits prod.splits)

lemma navigateTo_launches: "launches (snd (navigateTo d s p u opts)) = launches s"
  by (simp add: navigateTo_def record_call_def launches_def Let_def split: sum.splits)

lemma waitForSelector_launches: "launches (snd (waitForSelector d s p sel t)) = launches s"
  by (simp add: waitForSelector_def record_call_def launches_def Let_def split: sum.splits)

lemma step_keeps_present:
  assumes "browser s = Some b" and "\<not> close_or_disconnect x"
  shows "browser (snd (step d x s)) = Some b \<and> launches (snd (step d x s)) = launches s"
proof (cases x)
  case Initialize
  with initialize_present [OF assms(1), of d] show ?thesis using assms(1) by simp
next
  case GetPage
  with getPage_keeps [of d s] assms(1) show ?thesis
    by (cases "getPage d s") (auto split: sum.splits)
next
  case Close
  with assms(2) show ?thesis by simp
next
  case (NavigateTo p u opts)
  with navigateTo_browser [of d s p u opts] navigateTo_launches [of d s p u opts] assms(1)
  show ?thesis
    by (cases "navigateTo d s p u opts") (auto split: sum.splits)
next
  case (WaitFor p sel t)
  with waitForSelector_browser [of d s p sel t] waitForSelector_launches [of d s p sel t] assms(1)
  show ?thesis
    by (cases "waitForSelector d s p sel t") (auto split: sum.splits)
next
  case (Disconnected c)
  with assms(2) show ?thesis by simp
qed

lemma run_keeps_present:
  "browser s = Some b \<Longrightarrow> \<not> list_ex close_or_disconnect ops \<Longrightarrow>
   browser (snd (run d ops s)) = Some b \<and> launches (snd (run d ops s)) = launches s"
proof (induction ops arbitrary: s)
  case Nil
  then show ?case by simp
next
  case (Cons x xs)
  from Cons.prems(2) have nx: "\<not> close_or_disconnect x"
    and nxs: "\<not> list_ex close_or_disconnect xs"
    by simp_all
  from step_keeps_present [OF Cons.prems(1) nx, of d]
  have b: "browser (snd (step d x s)) = Some b"
    and l: "launches (snd (step d x s)) = launches s"
    by simp_all
  from Cons.IH [OF b nxs] l show ?case
    by (cases "step d x s"; cases "run d xs (snd (step d x s))") simp
qed

subsection \<open>Launching\<close>

text \<open>
  C1. \<open>initialize\<close>, with no handle, launches the browser with the stored configuration,
  the headless flag included. The profile directory and the window size are the stored
  ones, but the headless flag is not: with a configuration whose headless flag is off,
  the one driver call made is a launch with \<^verbatim>\<open>headless: true\<close>, whatever the driver answers.
\<close>

theorem initialize_ignores_headless_flag:
  "headless (config (new_BrowserService example_config)) = False \<and>
   trace (snd (initialize d (new_BrowserService example_config))) =
     [Launch \<lparr>launch_headless = True,
              channel = ''chrome'',
              launch_userDataDir = ''/tmp/profile'',
              args = [''--no-sandbox'',
                      ''--disable-setuid-sandbox'',
                      ''--window-size=1280,800'',
                      ''--disable-dev-shm-usage'',
                      ''--disable-blink-features=AutomationControlled''],
              defaultViewport = \<lparr>width = Number 1280, height = Number 800\<rparr>\<rparr>]"
  by (simp add: initialize_absent new_BrowserService_def example_config_def
      string_of_number_1280 string_of_number_800)

text \<open>
  C3. Two calls of \<open>initialize\<close> with no close in between make at most one launch, and the
  second leaves the handle as it is. Not when the first launch throws: the handle is
  still absent, so the second call launches again and sets the handle. And not when the
  browser disconnects in between: the observer has cleared the handle, so the second
  call launches again, two launches in all, and sets a new handle.
\<close>

theorem initialize_twice_counterexample:
  "browser (snd (initialize flaky_driver (new_BrowserService example_config))) = None \<and>
   browser (snd (initialize flaky_driver
      (snd (initialize flaky_driver (new_BrowserService example_config))))) = Some 1 \<and>
   launches (snd (initialize flaky_driver
      (snd (initialize flaky_driver (new_BrowserService example_config))))) = 2 \<and>
   fst (run obliging_driver [Initialize, Disconnected 0, Initialize]
      (new_BrowserService example_config)) =
     [(Initialize, Returned),
      (Disconnected 0, ObserverThrew (BrowserError ''Browser disconnected unexpectedly'')),
      (Initialize, Returned)] \<and>
   browser (snd (run obliging_driver [Initialize, Disconnected 0]
      (new_BrowserService example_config))) = None \<and>
   browser (snd (run obliging_driver [Initialize, Disconnected 0, Initialize]
      (new_BrowserService example_config))) = Some 1 \<and>
   launches (snd (run obliging_driver [Initialize, Disconnected 0, Initialize]
      (new_BrowserService example_config))) = 2"
  by (simp add: initialize_def emit_disconnected_def on_disconnected_def record_call_def
      wrap_def launches_def new_BrowserService_def flaky_driver_def obliging_driver_def)

text \<open>
  C3, amended. When the first \<open>initialize\<close> returns and neither a close nor a disconnect
  event comes between the two calls (any number of \<open>getPage\<close>, \<open>navigateTo\<close>,
  \<open>waitForSelector\<close> and further \<open>initialize\<close> calls may), the second \<open>initialize\<close> returns
  and changes nothing in the state, the handle is the one the first call set, and all
  these calls together have added at most one launch to the trace.
\<close>

theorem initialize_twice:
  assumes "fst (initialize d s) = Inr ()"
    and "\<not> list_ex close_or_disconnect ops"
  shows "initialize d (snd (run d ops (snd (initialize d s)))) =
           (Inr (), snd (run d ops (snd (initialize d s)))) \<and>
         browser (snd (run d ops (snd (initialize d s)))) = browser (snd (initialize d s)) \<and>
         launches (snd (initialize d (snd (run d ops (snd (initialize d s)))))) \<le>
           launches s + 1"
proof -
  from initialize_returns_present [OF assms(1)]
  obtain b where b: "browser (snd (initialize d s)) = Some b" ..
  from run_keeps_present [OF b assms(2), of d]
  have h: "browser (snd (run d ops (snd (initialize d s)))) = Some b"
    and l: "launches (snd (run d ops (snd (initialize d s)))) = launches (snd (initialize d s))"
    by simp_all
  from h have "initialize d (snd (run d ops (snd (initialize d s)))) =
           (Inr (), snd (run d ops (snd (initialize d s))))"
    by (rule initialize_present)
  with b h l initialize_launches [of d s] show ?thesis by simp
qed

theorem initialize_twice_witness:
  "fst (initialize obliging_driver (new_BrowserService example_config)) = Inr () \<and>
   \<not> list_ex close_or_disconnect
       [GetPage, Initialize, NavigateTo 2 ''https://www.instagram.com/'' None,
        WaitFor 2 ''#feed'' None] \<and>
   initialize obliging_driver
     (snd (run obliging_driver
        [GetPage, Initialize, NavigateTo 2 ''https://www.instagram.com/'' None,
         WaitFor 2 ''#feed'' None]
        (snd (initialize obliging_driver (new_BrowserService example_config))))) =
     (Inr (),
      snd (run obliging_driver
        [GetPage, Initialize, NavigateTo 2 ''https://www.instagram.com/'' None,
         WaitFor 2 ''#feed'' None]
        (snd (initialize obliging_driver (new_BrowserService example_config))))) \<and>
   browser (snd (run obliging_driver
        [GetPage, Initialize, NavigateTo 2 ''https://www.instagram.com/'' None,
         WaitFor 2 ''#feed'' None]
        (snd (initialize obliging_driver (new_BrowserService example_config))))) = Some 0 \<and>
   launches (snd (initialize obliging_driver
     (snd (run obliging_driver
        [GetPage, Initialize, NavigateTo 2 ''https://www.instagram.com/'' None,
         WaitFor 2 ''#feed'' None]
        (snd (initialize obliging_driver (new_BrowserService example_config))))))) \<le> 1"
proof -
  have a: "fst (initialize obliging_driver (new_BrowserService example_config)) = Inr ()"
    by (simp add: initialize_def record_call_def new_BrowserService_def obliging_driver_def)
  have b: "\<not> list_ex close_or_disconnect
       [GetPage, Initialize, NavigateTo 2 ''https://www.instagram.com/'' None,
        WaitFor 2 ''#feed'' None]"
    by simp
  have c: "browser (snd (initialize obliging_driver (new_BrowserService example_config))) = Some 0"
    by (simp add: launched_example)
  have l: "launches (new_BrowserService example_config) = 0"
    by (simp add: launches_def new_BrowserService_def)
  note th = initialize_twice [OF a b]
  from th [THEN conjunct2, THEN conjunct1] c
  have h: "browser (snd (run obliging_driver
        [GetPage, Initialize, NavigateTo 2 ''https://www.instagram.com/'' None,
         WaitFor 2 ''#feed'' None]
        (snd (initialize obliging_driver (new_BrowserService example_config))))) = Some 0"
    by (rule trans)
  from th [THEN conjunct2, THEN conjunct2] l
  have m: "launches (snd (initialize obliging_driver
     (snd (run obliging_driver
        [GetPage, Initialize, NavigateTo 2 ''https://www.instagram.com/'' None,
         WaitFor 2 ''#feed'' None]
        (snd (initialize obliging_driver (new_BrowserService example_config))))))) \<le> 1"
    by linarith
  from a b th [THEN conjunct1] h m show ?thesis by blast
qed

subsection \<open>Pages\<close>

text \<open>
  C2. Start with no handle and run any sequence of operations and disconnect events in
  which no \<open>initialize\<close> returns: \<open>getPage\<close> then raises \<^verbatim>\<open>Browser not initialized\<close> and
  leaves the state as it is, so it makes no driver call and creates no page.
\<close>

theorem getPage_before_initialize:
  assumes "browser s = None"
    and "\<not> list_ex initialize_succeeded (fst (run d ops s))"
  shows "getPage d (snd (run d ops s)) =
           (Inl (BrowserError ''Browser not initialized''), snd (run d ops s))"
  using run_keeps_absent [OF assms] by (rule getPage_absent)

theorem getPage_before_initialize_witness:
  "browser (new_BrowserService example_config) = None \<and>
   \<not> list_ex initialize_succeeded
       (fst (run refusing_driver [Initialize, Close, GetPage] (new_BrowserService example_config))) \<and>
   getPage refusing_driver
       (snd (run refusing_driver [Initialize, Close, GetPage] (new_BrowserService example_config))) =
     (Inl (BrowserError ''Browser not initialized''),
      snd (run refusing_driver [Initialize, Close, GetPage] (new_BrowserService example_config)))"
proof -
  have a: "browser (new_BrowserService example_config) = None"
    by (rule new_BrowserService_absent)
  have b: "\<not> list_ex initialize_succeeded
       (fst (run refusing_driver [Initialize, Close, GetPage] (new_BrowserService example_config)))"
    by (simp add: initialize_def close_def getPage_def record_call_def wrap_def
        new_BrowserService_def refusing_driver_def)
  from a b getPage_before_initialize [OF a b] show ?thesis by blast
qed

text \<open>
  C8. With a handle \<open>b\<close>, \<open>getPage\<close> returns a page exactly when the driver creates it
  and accepts, in this order, the configured viewport, the fixed desktop user agent, the
  configured default timeout and the fixed \<^verbatim>\<open>Accept-Language\<close> header; these five calls are
  then all it has added to the trace, and nothing else of the state has changed. In every
  other case it raises a \<^verbatim>\<open>BrowserError\<close> that wraps the cause: when creating the page
  throws, the message is \<^verbatim>\<open>Failed to create new page: \<close> followed by the text of what was
  thrown; when one of the four settings throws, it is
  \<^verbatim>\<open>Failed to create new page: Failed to setup page: \<close> followed by that text.
\<close>

theorem getPage_creates_configured_page:
  assumes "browser s = Some b"
    and "vp = \<lparr>width = windowWidth (config s), height = windowHeight (config s)\<rparr>"
    and "ua = ''Mozilla/5.0 (Macintosh; Intel Mac OS X 10_15_7) AppleWebKit/537.36 (KHTML, like Gecko) Chrome/120.0.0.0 Safari/537.36''"
    and "hs = [(''Accept-Language'', ''en-US,en;q=0.9'')]"
  shows "(fst (getPage d s) = Inr page \<longleftrightarrow>
            browser_newPage d (trace s) b = Inr page \<and>
            page_setViewport d (trace s @ [NewPage b]) page vp = Inr () \<and>
            page_setUserAgent d (trace s @ [NewPage b, SetViewport page vp]) page ua = Inr () \<and>
            page_setDefaultTimeout d
              (trace s @ [NewPage b, SetViewport page vp, SetUserAgent page ua])
              page (defaultTimeout (config s)) = Inr () \<and>
            page_setExtraHTTPHeaders d
              (trace s @ [NewPage b, SetViewport page vp, SetUserAgent page ua,
                          SetDefaultTimeout page (defaultTimeout (config s))])
              page hs = Inr ()) \<and>
         (fst (getPage d s) = Inr page \<longrightarrow>
            snd (getPage d s) =
              s\<lparr>trace := trace s @ [NewPage b, SetViewport page vp, SetUserAgent page ua,
                                     SetDefaultTimeout page (defaultTimeout (config s)),
                                     SetExtraHTTPHeaders page hs]\<rparr>) \<and>
         ((\<exists>p. fst (getPage d s) = Inr p) \<or>
          (\<exists>m. fst (getPage d s) = Inl (BrowserError (''Failed to create new page: '' @ m)))) \<and>
         (\<forall>e. browser_newPage d (trace s) b = Inl e \<longrightarrow>
            fst (getPage d s) =
              Inl (BrowserError (''Failed to create new page: '' @ error_text e))) \<and>
         (\<forall>e. browser_newPage d (trace s) b = Inr page \<and>
              (page_setViewport d (trace s @ [NewPage b]) page vp = Inl e \<or>
               page_setViewport d (trace s @ [NewPage b]) page vp = Inr () \<and>
               (page_setUserAgent d (trace s @ [NewPage b, SetViewport page vp]) page ua = Inl e \<or>
                page_setUserAgent d (trace s @ [NewPage b, SetViewport page vp]) page ua = Inr () \<and>
                (page_setDefaultTimeout d
                   (trace s @ [NewPage b, SetViewport page vp, SetUserAgent page ua])
                   page (defaultTimeout (config s)) = Inl e \<or>
                 page_setDefaultTimeout d
                   (trace s @ [NewPage b, SetViewport page vp, SetUserAgent page ua])
                   page (defaultTimeout (config s)) = Inr () \<and>
                 page_setExtraHTTPHeaders d
                   (trace s @ [NewPage b, SetViewport page vp, SetUserAgent page ua,
                               SetDefaultTimeout page (defaultTimeout (config s))])
                   page hs = Inl e))) \<longrightarrow>
            fst (getPage d s) =
              Inl (BrowserError
                (''Failed to create new page: Failed to setup page: '' @ error_text e)))"
proof -
  let ?s1 = "record_call (NewPage b) s"
  have cfg: "config ?s1 = config s" and tr: "trace ?s1 = trace s @ [NewPage b]"
    by (simp_all add: record_call_def)
  note sp = setupPage_result [of vp ?s1 ua hs d, unfolded cfg tr, OF assms(2,3,4)]
  note sf = setupPage_failure [of vp ?s1 ua hs d, unfolded cfg tr, OF assms(2,3,4)]
  have created: "(fst (getPage d s) = Inr page \<longleftrightarrow>
            browser_newPage d (trace s) b = Inr page \<and>
            page_setViewport d (trace s @ [NewPage b]) page vp = Inr () \<and>
            page_setUserAgent d (trace s @ [NewPage b, SetViewport page vp]) page ua = Inr () \<and>
            page_setDefaultTimeout d
              (trace s @ [NewPage b, SetViewport page vp, SetUserAgent page ua])
              page (defaultTimeout (config s)) = Inr () \<and>
            page_setExtraHTTPHeaders d
              (trace s @ [NewPage b, SetViewport page vp, SetUserAgent page ua,
                          SetDefaultTimeout page (defaultTimeout (config s))])
              page hs = Inr ()) \<and>
         (fst (getPage d s) = Inr page \<longrightarrow>
            snd (getPage d s) =
              s\<lparr>trace := trace s @ [NewPage b, SetViewport page vp, SetUserAgent page ua,
                                     SetDefaultTimeout page (defaultTimeout (config s)),
                                     SetExtraHTTPHeaders page hs]\<rparr>) \<and>
         ((\<exists>p. fst (getPage d s) = Inr p) \<or>
          (\<exists>m. fst (getPage d s) = Inl (BrowserError (''Failed to create new page: '' @ m))))"
  proof (cases "browser_newPage d (trace s) b")
    case (Inl e)
    with assms(1) show ?thesis by (simp add: getPage_unfold wrap_def)
  next
    case (Inr p)
    show ?thesis
    proof (cases "fst (setupPage d ?s1 p)")
      case (Inl e)
      then have g: "fst (getPage d s) = Inl (wrap ''Failed to create new page: '' (OwnError e))"
        using assms(1) Inr by (cases "setupPage d ?s1 p") (simp add: getPage_unfold)
      from Inl sp(1) [of p] have "\<not> (page_setViewport d (trace s @ [NewPage b]) p vp = Inr () \<and>
            page_setUserAgent d (trace s @ [NewPage b, SetViewport p vp]) p ua = Inr () \<and>
            page_setDefaultTimeout d
              (trace s @ [NewPage b, SetViewport p vp, SetUserAgent p ua])
              p (defaultTimeout (config s)) = Inr () \<and>
            page_setExtraHTTPHeaders d
              (trace s @ [NewPage b, SetViewport p vp, SetUserAgent p ua,
                          SetDefaultTimeout p (defaultTimeout (config s))])
              p hs = Inr ())" by simp
      with g Inr show ?thesis by (cases e) (auto simp: wrap_def)
    next
      case (Inr u)
      then have ok: "fst (setupPage d ?s1 p) = Inr ()" by simp
      then have g: "getPage d s = (Inr p, snd (setupPage d ?s1 p))"
        using assms(1) \<open>browser_newPage d (trace s) b = Inr p\<close>
        by (cases "setupPage d ?s1 p") (simp add: getPage_unfold)
      from sp(2) [OF ok] have st: "snd (setupPage d ?s1 p) =
          s\<lparr>trace := trace s @ [NewPage b, SetViewport p vp, SetUserAgent p ua,
                                     SetDefaultTimeout p (defaultTimeout (config s)),
                                     SetExtraHTTPHeaders p hs]\<rparr>"
        by (simp add: record_call_def)
      from sp(1) [of p] ok g st \<open>browser_newPage d (trace s) b = Inr p\<close>
      show ?thesis by auto
    qed
  qed
  have refused: "fst (getPage d s) =
      Inl (BrowserError (''Failed to create new page: '' @ error_text e))"
    if "browser_newPage d (trace s) b = Inl e" for e
    using that assms(1) by (simp add: getPage_unfold wrap_def)
  have unsettled: "fst (getPage d s) =
      Inl (BrowserError (''Failed to create new page: Failed to setup page: '' @ error_text e))"
    if n: "browser_newPage d (trace s) b = Inr page"
      and f: "page_setViewport d (trace s @ [NewPage b]) page vp = Inl e \<or>
               page_setViewport d (trace s @ [NewPage b]) page vp = Inr () \<and>
               (page_setUserAgent d (trace s @ [NewPage b, SetViewport page vp]) page ua = Inl e \<or>
                page_setUserAgent d (trace s @ [NewPage b, SetViewport page vp]) page ua = Inr () \<and>
                (page_setDefaultTimeout d
                   (trace s @ [NewPage b, SetViewport page vp, SetUserAgent page ua])
                   page (defaultTimeout (config s)) = Inl e \<or>
                 page_setDefaultTimeout d
                   (trace s @ [NewPage b, SetViewport page vp, SetUserAgent page ua])
                   page (defaultTimeout (config s)) = Inr () \<and>
                 page_setExtraHTTPHeaders d
                   (trace s @ [NewPage b, SetViewport page vp, SetUserAgent page ua,
                               SetDefaultTimeout page (defaultTimeout (config s))])
                   page hs = Inl e))"
    for e
  proof -
    from f have "fst (setupPage d ?s1 page) =
        Inl (BrowserError (''Failed to setup page: '' @ error_text e))"
      by (intro sf) simp
    with n assms(1) show ?thesis
      by (cases "setupPage d ?s1 page") (simp add: getPage_unfold wrap_def)
  qed
  from created refused unsettled show ?thesis by blast
qed

theorem getPage_creates_configured_page_witness:
  "getPage obliging_driver (snd (initialize obliging_driver (new_BrowserService example_config))) =
     (Inr 1,
      (snd (initialize obliging_driver (new_BrowserService example_config)))
        \<lparr>trace := trace (snd (initialize obliging_driver (new_BrowserService example_config))) @
           [NewPage 0,
            SetViewport 1 \<lparr>width = Number 1280, height = Number 800\<rparr>,
            SetUserAgent 1 ''Mozilla/5.0 (Macintosh; Intel Mac OS X 10_15_7) AppleWebKit/537.36 (KHTML, like Gecko) Chrome/120.0.0.0 Safari/537.36'',
            SetDefaultTimeout 1 (Number 30000),
            SetExtraHTTPHeaders 1 [(''Accept-Language'', ''en-US,en;q=0.9'')]]\<rparr>) \<and>
   fst (getPage refusing_driver
      (snd (initialize obliging_driver (new_BrowserService example_config)))) =
     Inl (BrowserError ''Failed to create new page: Target closed'') \<and>
   fst (getPage headers_refusing_driver
      (snd (initialize obliging_driver (new_BrowserService example_config)))) =
     Inl (BrowserError ''Failed to create new page: Failed to setup page: headers rejected'')"
proof -
  let ?s = "snd (initialize obliging_driver (new_BrowserService example_config))"
  have a: "browser ?s = Some 0" by (simp add: launched_example)
  have v: "\<lparr>width = Number 1280, height = Number 800\<rparr> =
      \<lparr>width = windowWidth (config ?s), height = windowHeight (config ?s)\<rparr>"
    unfolding launched_example by (simp add: new_BrowserService_def example_config_def)
  have t: "defaultTimeout (config ?s) = Number 30000"
    unfolding launched_example by (simp add: new_BrowserService_def example_config_def)
  have n: "browser_newPage obliging_driver (trace ?s) 0 = Inr 1"
    unfolding launched_example by (simp add: obliging_driver_def)
  have o: "page_setViewport obliging_driver tr p vp = Inr ()"
    "page_setUserAgent obliging_driver tr p ua = Inr ()"
    "page_setDefaultTimeout obliging_driver tr p tm = Inr ()"
    "page_setExtraHTTPHeaders obliging_driver tr p hs = Inr ()" for tr p vp ua tm hs
    by (simp_all add: obliging_driver_def)
  have r: "browser_newPage refusing_driver (trace ?s) 0 = Inl (ErrorObject ''Target closed'')"
    by (simp add: refusing_driver_def)
  have hn: "browser_newPage headers_refusing_driver (trace ?s) 0 = Inr 1"
    unfolding launched_example by (simp add: headers_refusing_driver_def obliging_driver_def)
  have ho: "page_setViewport headers_refusing_driver tr p vp = Inr ()"
    "page_setUserAgent headers_refusing_driver tr p ua = Inr ()"
    "page_setDefaultTimeout headers_refusing_driver tr p tm = Inr ()"
    "page_setExtraHTTPHeaders headers_refusing_driver tr p hs = Inl (OtherValue ''headers rejected'')"
    for tr p vp ua tm hs
    by (simp_all add: headers_refusing_driver_def obliging_driver_def)
  from getPage_creates_configured_page [OF a v refl refl, of obliging_driver 1] n o t
  have 1: "getPage obliging_driver ?s =
     (Inr 1,
      ?s\<lparr>trace := trace ?s @
           [NewPage 0,
            SetViewport 1 \<lparr>width = Number 1280, height = Number 800\<rparr>,
            SetUserAgent 1 ''Mozilla/5.0 (Macintosh; Intel Mac OS X 10_15_7) AppleWebKit/537.36 (KHTML, like Gecko) Chrome/120.0.0.0 Safari/537.36'',
            SetDefaultTimeout 1 (Number 30000),
            SetExtraHTTPHeaders 1 [(''Accept-Language'', ''en-US,en;q=0.9'')]]\<rparr>)"
    by (simp add: prod_eq_iff)
  from getPage_creates_configured_page [OF a v refl refl, of refusing_driver 1] r
  have 2: "fst (getPage refusing_driver ?s) =
     Inl (BrowserError ''Failed to create new page: Target closed'')"
    by simp
  from getPage_creates_configured_page [OF a v refl refl, of headers_refusing_driver 1] hn ho
  have 3: "fst (getPage headers_refusing_driver ?s) =
     Inl (BrowserError ''Failed to create new page: Failed to setup page: headers rejected'')"
    by simp
  from 1 2 3 show ?thesis by blast
qed

subsection \<open>Disconnection\<close>

text \<open>
  C4. When the driver emits \<^verbatim>\<open>disconnected\<close> on a browser that carries the observer, the
  handle is cleared; after any further operations and events among which no \<open>initialize\<close>
  returns, \<open>getPage\<close> raises \<^verbatim>\<open>Browser not initialized\<close>.
\<close>

theorem disconnected_clears_handle:
  assumes "b \<in> set (listeners s)"
    and "\<not> list_ex initialize_succeeded (fst (run d ops (snd (emit_disconnected b s))))"
  shows "browser (snd (emit_disconnected b s)) = None \<and>
         fst (getPage d (snd (run d ops (snd (emit_disconnected b s))))) =
           Inl (BrowserError ''Browser not initialized'')"
proof -
  from assms(1) have a: "browser (snd (emit_disconnected b s)) = None"
    by (simp add: emit_disconnected_def on_disconnected_def)
  from run_keeps_absent [OF a assms(2)] a show ?thesis
    by (simp add: getPage_absent)
qed

theorem disconnected_clears_handle_witness:
  "browser (snd (initialize obliging_driver (new_BrowserService example_config))) = Some 0 \<and>
   browser (snd (emit_disconnected 0
      (snd (initialize obliging_driver (new_BrowserService example_config))))) = None \<and>
   fst (getPage refusing_driver
     (snd (run refusing_driver [GetPage, Initialize, WaitFor 3 ''#feed'' None]
        (snd (emit_disconnected 0
           (snd (initialize obliging_driver (new_BrowserService example_config)))))))) =
     Inl (BrowserError ''Browser not initialized'')"
proof -
  let ?s = "snd (initialize obliging_driver (new_BrowserService example_config))"
  have a: "0 \<in> set (listeners ?s)"
    by (simp add: launched_example)
  have b: "\<not> list_ex initialize_succeeded
      (fst (run refusing_driver [GetPage, Initialize, WaitFor 3 ''#feed'' None]
         (snd (emit_disconnected 0 ?s))))"
    by code_simp
  have c: "browser ?s = Some 0"
    by (simp add: launched_example)
  from disconnected_clears_handle [OF a b] c show ?thesis by simp
qed

subsection \<open>Closing\<close>

text \<open>
  C6. \<open>close\<close> with no handle returns normally and leaves the whole state, the trace of
  driver calls included, as it was.
\<close>

theorem close_without_handle:
  assumes "browser s = None"
  shows "close d s = (Inr (), s)"
  using assms by (simp add: close_def)

theorem close_without_handle_witness:
  "browser (new_BrowserService example_config) = None \<and>
   close refusing_driver (new_BrowserService example_config) =
     (Inr (), new_BrowserService example_config)"
  using close_without_handle [of "new_BrowserService example_config" refusing_driver]
  by (simp add: new_BrowserService_def)

text \<open>
  C9. When the driver's close throws, \<open>close\<close> raises the wrapped error and keeps the
  handle, so that a \<open>getPage\<close> right after it does not raise
  \<^verbatim>\<open>Browser not initialized\<close>. Not when the browser disconnects while the failing close is
  pending: the observer has cleared the handle by the time \<open>close\<close> raises, and the next
  \<open>getPage\<close> raises \<^verbatim>\<open>Browser not initialized\<close>.
\<close>

theorem close_failure_counterexample:
  "browser (snd (initialize obliging_driver (new_BrowserService example_config))) = Some 0 \<and>
   browser_close vanishing_driver
     (trace (snd (initialize obliging_driver (new_BrowserService example_config)))) 0 =
     Inl (ErrorObject ''Protocol error'') \<and>
   fst (close vanishing_driver
     (snd (initialize obliging_driver (new_BrowserService example_config)))) =
     Inl (BrowserError ''Failed to close browser: Protocol error'') \<and>
   browser (snd (close vanishing_driver
     (snd (initialize obliging_driver (new_BrowserService example_config))))) = None \<and>
   fst (getPage vanishing_driver
     (snd (close vanishing_driver
        (snd (initialize obliging_driver (new_BrowserService example_config)))))) =
     Inl (BrowserError ''Browser not initialized'')"
  unfolding launched_example
  by (simp add: close_def getPage_def emit_disconnected_def on_disconnected_def
      record_call_def wrap_def new_BrowserService_def vanishing_driver_def obliging_driver_def)

text \<open>
  C9, amended. When the driver's close throws and no \<^verbatim>\<open>disconnected\<close> event reaches the
  observer while that call is pending, \<open>close\<close> raises the wrapped error and keeps the
  handle: only the call is added to the trace. A \<open>getPage\<close> right after it does not
  raise \<^verbatim>\<open>Browser not initialized\<close>.
\<close>

theorem close_failure_keeps_handle:
  assumes "browser s = Some b" and "browser_close d (trace s) b = Inl e"
    and "set (browser_close_emits d (trace s) b) \<inter> set (listeners s) = {}"
  shows "close d s =
           (Inl (BrowserError (''Failed to close browser: '' @ error_text e)),
            s\<lparr>trace := trace s @ [CloseBrowser b]\<rparr>) \<and>
         browser (snd (close d s)) = Some b \<and>
         fst (getPage d (snd (close d s))) \<noteq> Inl (BrowserError ''Browser not initialized'')"
proof -
  from assms(3) have q: "emit_all (browser_close_emits d (trace s) b) (record_call (CloseBrowser b) s) =
      record_call (CloseBrowser b) s"
    by (intro emit_all_unobserved) (simp add: record_call_def)
  from assms(1,2) q have c: "close d s =
           (Inl (BrowserError (''Failed to close browser: '' @ error_text e)),
            s\<lparr>trace := trace s @ [CloseBrowser b]\<rparr>)"
    by (simp add: close_def wrap_def record_call_def)
  with assms(1) have h: "browser (snd (close d s)) = Some b" by simp
  from c h getPage_present_not_uninitialized [OF h] show ?thesis by simp
qed

theorem close_failure_keeps_handle_witness:
  "browser (snd (initialize obliging_driver (new_BrowserService example_config))) = Some 0 \<and>
   close flaky_driver (snd (initialize obliging_driver (new_BrowserService example_config))) =
     (Inl (BrowserError ''Failed to close browser: Protocol error''),
      (snd (initialize obliging_driver (new_BrowserService example_config)))
        \<lparr>trace := trace (snd (initialize obliging_driver (new_BrowserService example_config))) @
           [CloseBrowser 0]\<rparr>) \<and>
   fst (getPage flaky_driver
     (snd (close flaky_driver (snd (initialize obliging_driver (new_BrowserService example_config))))))
     \<noteq> Inl (BrowserError ''Browser not initialized'')"
proof -
  let ?s = "snd (initialize obliging_driver (new_BrowserService example_config))"
  have a: "browser ?s = Some 0" by (simp add: launched_example)
  have c: "browser_close flaky_driver (trace ?s) 0 = Inl (ErrorObject ''Protocol error'')"
    by (simp add: flaky_driver_def)
  have n: "set (browser_close_emits flaky_driver (trace ?s) 0) \<inter> set (listeners ?s) = {}"
    by (simp add: flaky_driver_def obliging_driver_def)
  have m: "''Failed to close browser: '' @ error_text (ErrorObject ''Protocol error'') =
      ''Failed to close browser: Protocol error''"
    by simp
  from close_failure_keeps_handle [OF a c n, unfolded m] a show ?thesis by blast
qed

subsection \<open>Navigating and waiting\<close>

text \<open>
  C7. \<open>navigateTo\<close> waits for network-idle unless the caller supplies a wait condition,
  and uses the timeout the caller supplies, or else the configured default. Not for a
  supplied value that is falsy: with a supplied timeout of zero, or of \<^verbatim>\<open>NaN\<close>, the driver
  is given the default, 30000 here, and with the empty string supplied as wait condition
  it is given \<^verbatim>\<open>networkidle0\<close>.
\<close>

theorem navigateTo_falsy_options_counterexample:
  "trace (snd (navigateTo obliging_driver (new_BrowserService example_config) 3
      ''https://www.instagram.com/''
      (Some \<lparr>nav_waitUntil = None, nav_timeout = Some (Number 0)\<rparr>))) =
     [Goto 3 ''https://www.instagram.com/''
        \<lparr>waitUntil = ''networkidle0'', timeout = Number 30000\<rparr>] \<and>
   Goto 3 ''https://www.instagram.com/'' \<lparr>waitUntil = ''networkidle0'', timeout = Number 0\<rparr> \<notin>
     set (trace (snd (navigateTo obliging_driver (new_BrowserService example_config) 3
      ''https://www.instagram.com/''
      (Some \<lparr>nav_waitUntil = None, nav_timeout = Some (Number 0)\<rparr>)))) \<and>
   trace (snd (navigateTo obliging_driver (new_BrowserService example_config) 3
      ''https://www.instagram.com/''
      (Some \<lparr>nav_waitUntil = None, nav_timeout = Some NaN\<rparr>))) =
     [Goto 3 ''https://www.instagram.com/''
        \<lparr>waitUntil = ''networkidle0'', timeout = Number 30000\<rparr>] \<and>
   trace (snd (navigateTo obliging_driver (new_BrowserService example_config) 3
      ''https://www.instagram.com/''
      (Some \<lparr>nav_waitUntil = Some [], nav_timeout = Some (Number 5000)\<rparr>))) =
     [Goto 3 ''https://www.instagram.com/''
        \<lparr>waitUntil = ''networkidle0'', timeout = Number 5000\<rparr>]"
  by (simp add: navigateTo_def record_call_def new_BrowserService_def example_config_def
      obliging_driver_def)

text \<open>
  C7, amended. \<open>navigateTo\<close> makes one driver call, \<^verbatim>\<open>goto\<close> on the page with the url,
  waiting for the supplied condition when one is supplied and not empty and for
  \<^verbatim>\<open>networkidle0\<close> otherwise, with the supplied timeout when one is supplied and is
  neither zero nor \<^verbatim>\<open>NaN\<close>, and the configured default otherwise. It returns when the
  driver does; when the driver throws, it raises a \<^verbatim>\<open>BrowserError\<close> whose message is
  \<^verbatim>\<open>Failed to navigate to \<close>, the url, a colon and the text of what was thrown.
\<close>

theorem navigateTo_goto_and_wrapping:
  assumes "opts =
     \<lparr>waitUntil = (case Option.bind options nav_waitUntil of
                     None \<Rightarrow> ''networkidle0''
                   | Some w \<Rightarrow> if w = [] then ''networkidle0'' else w),
      timeout = (case Option.bind options nav_timeout of
                   None \<Rightarrow> defaultTimeout (config s)
                 | Some NaN \<Rightarrow> defaultTimeout (config s)
                 | Some (Number t) \<Rightarrow> if t = 0 then defaultTimeout (config s) else Number t)\<rparr>"
  shows "snd (navigateTo d s page url options) = s\<lparr>trace := trace s @ [Goto page url opts]\<rparr> \<and>
         (page_goto d (trace s) page url opts = Inr () \<longrightarrow>
            fst (navigateTo d s page url options) = Inr ()) \<and>
         (\<forall>e. page_goto d (trace s) page url opts = Inl e \<longrightarrow>
            fst (navigateTo d s page url options) =
              Inl (BrowserError (''Failed to navigate to '' @ url @ '': '' @ error_text e)) \<and>
            sublist url (''Failed to navigate to '' @ url @ '': '' @ error_text e))"
proof -
  have o: "opts = \<lparr>waitUntil = or_string (Option.bind options nav_waitUntil) ''networkidle0'',
                    timeout = or_number (Option.bind options nav_timeout) (defaultTimeout (config s))\<rparr>"
    unfolding assms
    by (cases "Option.bind options nav_waitUntil"; cases "Option.bind options nav_timeout")
      (simp_all split: number.splits)
  have 1: "snd (navigateTo d s page url options) = s\<lparr>trace := trace s @ [Goto page url opts]\<rparr>"
    unfolding o by (simp add: navigateTo_def record_call_def Let_def split: sum.splits)
  have 2: "page_goto d (trace s) page url opts = Inr () \<longrightarrow>
            fst (navigateTo d s page url options) = Inr ()"
    unfolding o by (simp add: navigateTo_def Let_def)
  have 3: "fst (navigateTo d s page url options) =
              Inl (BrowserError (''Failed to navigate to '' @ url @ '': '' @ error_text e))"
    if "page_goto d (trace s) page url opts = Inl e" for e
    using that unfolding o by (simp add: navigateTo_def wrap_def Let_def)
  have 4: "sublist url (''Failed to navigate to '' @ url @ '': '' @ error_text e)" for e
    using sublist_appendI [of url "''Failed to navigate to ''" "'': '' @ error_text e"] by simp
  from 1 2 3 4 show ?thesis by blast
qed

theorem navigateTo_goto_and_wrapping_witness:
  "navigateTo refusing_driver (new_BrowserService example_config) 3 ''https://www.instagram.com/''
      (Some \<lparr>nav_waitUntil = Some ''load'', nav_timeout = Some (Number 5000)\<rparr>) =
     (Inl (BrowserError
        ''Failed to navigate to https://www.instagram.com/: net::ERR_NAME_NOT_RESOLVED''),
      (new_BrowserService example_config)
        \<lparr>trace := [Goto 3 ''https://www.instagram.com/''
                     \<lparr>waitUntil = ''load'', timeout = Number 5000\<rparr>]\<rparr>)"
proof -
  have g: "page_goto refusing_driver (trace (new_BrowserService example_config)) 3
      ''https://www.instagram.com/'' \<lparr>waitUntil = ''load'', timeout = Number 5000\<rparr> =
      Inl (ErrorObject ''net::ERR_NAME_NOT_RESOLVED'')"
    by (simp add: refusing_driver_def)
  have t: "trace (new_BrowserService example_config) = []"
    by (simp add: new_BrowserService_def)
  from navigateTo_goto_and_wrapping [of "\<lparr>waitUntil = ''load'', timeout = Number 5000\<rparr>"
      "Some \<lparr>nav_waitUntil = Some ''load'', nav_timeout = Some (Number 5000)\<rparr>"
      "new_BrowserService example_config" refusing_driver 3 "''https://www.instagram.com/''"] g t
  show ?thesis by (simp add: prod_eq_iff)
qed

text \<open>
  C10. A timeout of zero supplied to \<open>navigateTo\<close> or to \<open>waitForSelector\<close> is replaced:
  the driver receives the configured default timeout.
\<close>

theorem zero_timeout_replaced_by_default:
  "trace (snd (navigateTo d s page url (Some \<lparr>nav_waitUntil = w, nav_timeout = Some (Number 0)\<rparr>))) =
     trace s @ [Goto page url \<lparr>waitUntil = or_string w ''networkidle0'',
                               timeout = defaultTimeout (config s)\<rparr>] \<and>
   trace (snd (waitForSelector d s page selector (Some (Number 0)))) =
     trace s @ [WaitForSelector page selector (defaultTimeout (config s))]"
  by (simp add: navigateTo_def waitForSelector_def record_call_def Let_def split: sum.splits)

theorem zero_timeout_replaced_by_default_witness:
  "trace (snd (navigateTo obliging_driver (new_BrowserService example_config) 3
      ''https://www.instagram.com/''
      (Some \<lparr>nav_waitUntil = Some ''load'', nav_timeout = Some (Number 0)\<rparr>))) =
     [Goto 3 ''https://www.instagram.com/'' \<lparr>waitUntil = ''load'', timeout = Number 30000\<rparr>] \<and>
   trace (snd (waitForSelector obliging_driver (new_BrowserService example_config) 3 ''#feed''
      (Some (Number 0)))) =
     [WaitForSelector 3 ''#feed'' (Number 30000)]"
  using zero_timeout_replaced_by_default [of obliging_driver "new_BrowserService example_config" 3
      "''https://www.instagram.com/''" "Some ''load''" "''#feed''"]
  by (simp add: new_BrowserService_def example_config_def)

text \<open>
  C5. \<open>waitForSelector\<close> never raises: it returns \<open>False\<close> when the driver's wait throws,
  whatever it throws, and \<open>True\<close> when the driver's wait returns.
\<close>

theorem waitForSelector_never_raises:
  "fst (waitForSelector d s page selector tmo) =
     Inr (case page_waitForSelector d (trace s) page selector
                 (or_number tmo (defaultTimeout (config s))) of
            Inl e \<Rightarrow> False
          | Inr u \<Rightarrow> True)"
  by (simp add: waitForSelector_def record_call_def Let_def split: sum.splits)

theorem waitForSelector_never_raises_witness:
  "fst (waitForSelector refusing_driver (new_BrowserService example_config) 3 ''#feed'' (Some (Number 500))) =
     Inr False \<and>
   fst (waitForSelector obliging_driver (new_BrowserService example_config) 3 ''#feed'' None) =
     Inr True"
  using waitForSelector_never_raises [of refusing_driver "new_BrowserService example_config" 3 "''#feed''" "Some (Number 500)"]
    waitForSelector_never_raises [of obliging_driver "new_BrowserService example_config" 3 "''#feed''" None]
  by (simp add: refusing_driver_def obliging_driver_def)

end
